theory Spec2Isabelle
  imports Complex_Main
begin

section \<open>Data model\<close>

text \<open>
  The two operations of \<^verbatim>\<open>eis_toolkit.vector_processing\<close> are embedded:
  \<^verbatim>\<open>rasterize_vector\<close> (rasterize.py) and \<^verbatim>\<open>kriging\<close> (kriging_interpolation.py).
  Python floats are idealised as \<^typ>\<open>real\<close> (no NaN, no rounding error); Python
  exceptions are values of the type \<open>error\<close>, returned on the left of a sum.
  A leading underscore of a Python name is written as the suffix \<open>_priv\<close>.
\<close>

type_synonym bbox = "real \<times> real \<times> real \<times> real"

text \<open>The six coefficients \<open>(a, b, c, d, e, f)\<close> of an \<^verbatim>\<open>affine.Affine\<close>:
  pixel \<open>(col, row)\<close> is sent to \<open>(a * col + b * row + c, d * col + e * row + f)\<close>.\<close>

type_synonym affine = "real \<times> real \<times> real \<times> real \<times> real \<times> real"

type_synonym crs = "string option"

text \<open>The parameter an exception's message is about.\<close>

datatype param = P_resolution | P_value_column | P_buffer_value | P_target_column | P_drift_terms

text \<open>
  \<open>EmptyDataFrameException\<close> and \<open>InvalidParameterValueException\<close> are the toolkit's own
  exception classes, \<open>ValueError\<close> is Python's builtin; \<open>LibraryError\<close> stands for an
  exception raised inside numpy, shapely, rasterio or pykrige.
\<close>

datatype error =
    EmptyDataFrameException
  | InvalidParameterValueException param
  | ValueError param
  | LibraryError

text \<open>
  A number as Python passes it around: an int or a float. Its value is a real; which of
  the two it is decides the data type of a numpy array made from it.
\<close>

datatype number = IntNum int | FloatNum real

fun num_val :: "number \<Rightarrow> real" where
  "num_val (IntNum i) = of_int i"
| "num_val (FloatNum x) = x"

fun is_int :: "number \<Rightarrow> bool" where
  "is_int (IntNum i) = True"
| "is_int (FloatNum x) = False"

text \<open>A numeric pandas column has one data type, int64 or float64; \<open>column_values\<close> is
  its \<^verbatim>\<open>.values\<close>.\<close>

datatype column = IntColumn "int list" | FloatColumn "real list"

fun column_values :: "column \<Rightarrow> number list" where
  "column_values (IntColumn vs) = map IntNum vs"
| "column_values (FloatColumn vs) = map FloatNum vs"

text \<open>
  A GeoDataFrame: the geometry column, the numeric attribute columns in order, and the
  CRS. pandas keeps every column as long as the frame has rows (\<open>wf_frame\<close>).
\<close>

record 'g geodataframe =
  geometry :: "'g list"
  attributes :: "(string \<times> column) list"
  crs :: crs

definition columns :: "'g geodataframe \<Rightarrow> string list" where
  "columns gdf = map fst (attributes gdf) @ [''geometry'']"

definition wf_frame :: "'g geodataframe \<Rightarrow> bool" where
  "wf_frame gdf =
     list_all (\<lambda>kv. length (column_values (snd kv)) = length (geometry gdf)) (attributes gdf)"

text \<open>
  The geometry library (shapely, and GDAL's burn rule behind rasterio) is a parameter:
  \<open>bounds g\<close> is \<^verbatim>\<open>g.bounds = (minx, miny, maxx, maxy)\<close>, \<open>buffer g d\<close> is
  \<^verbatim>\<open>g.buffer(d)\<close>, \<open>burns T g row col\<close> says whether rasterio burns the pixel
  \<open>(row, col)\<close> of a grid with transform \<open>T\<close> for the shape \<open>g\<close>, and \<open>point_xy g\<close> is
  \<^verbatim>\<open>(g.x, g.y)\<close>, defined for a Point only.
\<close>

record 'g shapely =
  bounds :: "'g \<Rightarrow> bbox"
  buffer :: "'g \<Rightarrow> real \<Rightarrow> 'g"
  burns :: "affine \<Rightarrow> 'g \<Rightarrow> nat \<Rightarrow> nat \<Rightarrow> bool"
  point_xy :: "'g \<Rightarrow> (real \<times> real) option"

text \<open>A rasterio profile as far as the rasterizer reads it.\<close>

record profile =
  p_width :: real
  p_height :: real
  p_transform :: affine

datatype meta_value = MTransform affine | MNum real | MCrs crs

type_synonym metadata = "(string \<times> meta_value) list"

type_synonym raster = "real list list"

section \<open>Library functions used by the rasterizer\<close>

text \<open>Python's \<^verbatim>\<open>round\<close> on a float: to the nearest integer, ties to the even one.\<close>

definition pyround :: "real \<Rightarrow> int" where
  "pyround x =
     (let f = \<lfloor>x\<rfloor>; d = x - of_int f
      in if d < 1 / 2 then f else if 1 / 2 < d then f + 1 else if even f then f else f + 1)"

text \<open>\<^verbatim>\<open>numpy.nanmin\<close> and \<^verbatim>\<open>nanmax\<close> of a column of bounds. On the empty list numpy
  gives NaN; the rasterizer rejects an empty frame before it gets here.\<close>

fun minimum :: "real list \<Rightarrow> real" where
  "minimum [] = 0"
| "minimum (x # xs) = fold min xs x"

fun maximum :: "real list \<Rightarrow> real" where
  "maximum [] = 0"
| "maximum (x # xs) = fold max xs x"

text \<open>\<^verbatim>\<open>GeoDataFrame.total_bounds\<close>: \<open>(min_x, min_y, max_x, max_y)\<close> over all geometries.\<close>

definition total_bounds :: "'g shapely \<Rightarrow> 'g geodataframe \<Rightarrow> bbox" where
  "total_bounds L gdf =
     (let bs = map (bounds L) (geometry gdf)
      in (minimum (map fst bs),
          minimum (map (fst \<circ> snd) bs),
          maximum (map (fst \<circ> snd \<circ> snd) bs),
          maximum (map (snd \<circ> snd \<circ> snd) bs)))"

text \<open>\<^verbatim>\<open>rasterio.transform.from_bounds\<close>:
  \<^verbatim>\<open>Affine.translation(west, north) * Affine.scale((east - west) / width, (south - north) / height)\<close>.\<close>

definition from_bounds :: "real \<Rightarrow> real \<Rightarrow> real \<Rightarrow> real \<Rightarrow> real \<Rightarrow> real \<Rightarrow> affine" where
  "from_bounds west south east north width height =
     ((east - west) / width, 0, west, 0, (south - north) / height, north)"

definition apply_affine :: "affine \<Rightarrow> real \<times> real \<Rightarrow> real \<times> real" where
  "apply_affine T p =
     (case T of (a, b, c, d, e, f) \<Rightarrow>
        (a * fst p + b * snd p + c, d * fst p + e * snd p + f))"

text \<open>
  \<^verbatim>\<open>rasterio.features.rasterize(shapes, out_shape, fill, transform, default_value)\<close>
  with its default merge algorithm (replace). Each shape has the value paired with it, or
  \<open>default_value\<close> where none is. The output array takes its data type from the numpy
  array of these values: int64 when all of them are ints, float64 otherwise. It starts
  filled with \<open>fill\<close> as that data type stores it (\<^verbatim>\<open>out.fill(fill)\<close>): a float64 array
  keeps the value; an int64 array keeps the integer part of a float and refuses an int
  outside the int64 range with OverflowError. Then the shapes are burned one after the
  other in the order given, each writing its value over what the burned pixels held.
  An empty list of shapes and a shape without a positive number of rows and columns are
  refused. The model stops with a library error where numpy leaves int64: at a burned int
  outside the int64 range, and at a float fill whose integer part is outside it.
\<close>

definition shape_value :: "number \<Rightarrow> 'g \<times> number option \<Rightarrow> number" where
  "shape_value default_value s = (case snd s of None \<Rightarrow> default_value | Some v \<Rightarrow> v)"

definition int64_range :: "int \<Rightarrow> bool" where
  "int64_range i = (- (2 ^ 63) \<le> i \<and> i < 2 ^ 63)"

fun in_int64 :: "number \<Rightarrow> bool" where
  "in_int64 (IntNum i) = int64_range i"
| "in_int64 (FloatNum x) = True"

text \<open>The integer part of a float, as a C cast takes it: towards zero.\<close>

definition int_part :: "real \<Rightarrow> int" where
  "int_part x = (if 0 \<le> x then \<lfloor>x\<rfloor> else \<lceil>x\<rceil>)"

text \<open>What \<^verbatim>\<open>out.fill(fill)\<close> stores; the flag says that the array is int64.\<close>

fun fill_as :: "bool \<Rightarrow> number \<Rightarrow> error + real" where
  "fill_as False fill = Inr (num_val fill)"
| "fill_as True (IntNum i) = (if int64_range i then Inr (of_int i) else Inl LibraryError)"
| "fill_as True (FloatNum x) =
     (if int64_range (int_part x) then Inr (of_int (int_part x)) else Inl LibraryError)"

definition burn ::
  "'g shapely \<Rightarrow> affine \<Rightarrow> number \<Rightarrow> nat \<Rightarrow> nat \<Rightarrow> raster \<Rightarrow> 'g \<times> number option \<Rightarrow> raster" where
  "burn L T default_value h w out s =
     map (\<lambda>r. map (\<lambda>c. if burns L T (fst s) r c then num_val (shape_value default_value s)
                         else out ! r ! c) [0..<w]) [0..<h]"

definition features_rasterize ::
  "'g shapely \<Rightarrow> ('g \<times> number option) list \<Rightarrow> number \<Rightarrow> number \<Rightarrow> affine \<Rightarrow> int \<times> int
     \<Rightarrow> error + raster" where
  "features_rasterize L shapes fill default_value T out_shape =
     (case out_shape of (h, w) \<Rightarrow>
        let shape_values = map (shape_value default_value) shapes;
            int64 = list_all is_int shape_values
        in if shapes = [] then Inl LibraryError
           else if int64 \<and> \<not> list_all in_int64 shape_values then Inl LibraryError
           else if h \<le> 0 \<or> w \<le> 0 then Inl LibraryError
           else (case fill_as int64 fill of
                   Inl e \<Rightarrow> Inl e
                 | Inr filled \<Rightarrow>
                     Inr (foldl (burn L T default_value (nat h) (nat w))
                            (replicate (nat h) (replicate (nat w) filled)) shapes)))"

section \<open>rasterize.py\<close>

definition transform_from_geometries_priv ::
  "'g shapely \<Rightarrow> 'g geodataframe \<Rightarrow> real \<Rightarrow> real \<times> real \<times> affine" where
  "transform_from_geometries_priv L geodataframe resolution =
     (case total_bounds L geodataframe of (min_x, min_y, max_x, max_y) \<Rightarrow>
        let width = (max_x - min_x) / resolution;
            height = (max_y - min_y) / resolution;
            out_transform = from_bounds min_x min_y max_x max_y width height
        in (width, height, out_transform))"

text \<open>Lines 93 to 100 of \<^verbatim>\<open>_rasterize_vector\<close>: the grid frame, from the geometries or
  from the base raster's profile.\<close>

definition grid_frame ::
  "'g shapely \<Rightarrow> 'g geodataframe \<Rightarrow> profile option \<Rightarrow> real \<Rightarrow> real \<times> real \<times> affine" where
  "grid_frame L geodataframe base_raster_profile resolution =
     (case base_raster_profile of
        None \<Rightarrow> transform_from_geometries_priv L geodataframe resolution
      | Some p \<Rightarrow> (p_width p, p_height p, p_transform p))"

text \<open>Lines 89 to 91: the shapes handed to rasterio. Reading a value column that is
  not a numeric attribute column leaves rasterio with values it refuses.\<close>

definition geometry_value_pairs ::
  "'g geodataframe \<Rightarrow> string option \<Rightarrow> error + ('g \<times> number option) list" where
  "geometry_value_pairs geodataframe value_column =
     (case value_column of
        None \<Rightarrow> Inr (map (\<lambda>g. (g, None)) (geometry geodataframe))
      | Some col \<Rightarrow>
          (case map_of (attributes geodataframe) col of
             None \<Rightarrow> Inl LibraryError
           | Some vs \<Rightarrow> Inr (zip (geometry geodataframe) (map Some (column_values vs)))))"

definition rasterize_vector_priv ::
  "'g shapely \<Rightarrow> 'g geodataframe \<Rightarrow> string option \<Rightarrow> number \<Rightarrow> number \<Rightarrow> profile option
     \<Rightarrow> real \<Rightarrow> error + raster \<times> metadata" where
  "rasterize_vector_priv L geodataframe value_column default_value fill_value
       base_raster_profile resolution =
     (case geometry_value_pairs geodataframe value_column of
        Inl e \<Rightarrow> Inl e
      | Inr pairs \<Rightarrow>
          (case grid_frame L geodataframe base_raster_profile resolution of
             (width, height, out_transform) \<Rightarrow>
               (case features_rasterize L pairs fill_value default_value out_transform
                       (pyround height, pyround width) of
                  Inl e \<Rightarrow> Inl e
                | Inr out_raster_array \<Rightarrow>
                    Inr (out_raster_array,
                         [(''transform'', MTransform out_transform),
                          (''height'', MNum height),
                          (''width'', MNum width)]))))"

text \<open>
  \<^verbatim>\<open>rasterize_vector\<close> assigns to the \<^verbatim>\<open>"geometry"\<close> column of the frame it was
  given, so the frame is state: the function returns its result together with the frame
  as the caller finds it afterwards.
\<close>

definition rasterize_vector ::
  "'g shapely \<Rightarrow> 'g geodataframe \<Rightarrow> real \<Rightarrow> string option \<Rightarrow> number \<Rightarrow> number
     \<Rightarrow> profile option \<Rightarrow> real option \<Rightarrow> (error + raster \<times> metadata) \<times> 'g geodataframe" where
  "rasterize_vector L geodataframe resolution value_column default_value fill_value
       base_raster_profile buffer_value =
     (if geometry geodataframe = [] then (Inl EmptyDataFrameException, geodataframe)
      else if \<not> resolution > 0 then (Inl (ValueError P_resolution), geodataframe)
      else if value_column \<noteq> None \<and> the value_column \<notin> set (columns geodataframe)
        then (Inl (ValueError P_value_column), geodataframe)
      else if buffer_value \<noteq> None \<and> the buffer_value < 0
        then (Inl (ValueError P_buffer_value), geodataframe)
      else
        let geodataframe' =
              (case buffer_value of
                 None \<Rightarrow> geodataframe
               | Some d \<Rightarrow> geodataframe\<lparr>geometry := map (\<lambda>geom. buffer L geom d) (geometry geodataframe)\<rparr>)
        in (rasterize_vector_priv L geodataframe' value_column default_value fill_value
              base_raster_profile resolution, geodataframe'))"

section \<open>kriging_interpolation.py\<close>

text \<open>
  The interpolator's \<open>resolution\<close> is a pair of \<^verbatim>\<open>numbers.Number\<close>, here a Python int
  or a float. Comparing with zero reads the value; numpy asks for an int where it counts.
\<close>

datatype variogram = Linear | Power | Gaussian | Spherical | Exponential | HoleEffect

datatype kriging_method = Ordinary | Universal

text \<open>
  pykrige is a parameter. Constructing \<^verbatim>\<open>OrdinaryKriging(x, y, z, variogram_model)\<close> or
  \<^verbatim>\<open>UniversalKriging(x, y, z, variogram_model, drift_terms)\<close> fits the variogram and
  either raises (\<open>None\<close>) or gives an estimator, a function of a grid node \<open>(x, y)\<close>.
\<close>

record pykrige =
  ordinary_kriging :: "real list \<Rightarrow> real list \<Rightarrow> real list \<Rightarrow> variogram
     \<Rightarrow> (real \<Rightarrow> real \<Rightarrow> real) option"
  universal_kriging :: "real list \<Rightarrow> real list \<Rightarrow> real list \<Rightarrow> variogram \<Rightarrow> string list
     \<Rightarrow> (real \<Rightarrow> real \<Rightarrow> real) option"

text \<open>\<^verbatim>\<open>execute("grid", grid_x, grid_y)\<close>: the estimate at every node, one row for each
  \<open>y\<close>, one column for each \<open>x\<close>.\<close>

definition execute_grid :: "(real \<Rightarrow> real \<Rightarrow> real) \<Rightarrow> real list \<Rightarrow> real list \<Rightarrow> raster" where
  "execute_grid est grid_x grid_y = map (\<lambda>y. map (\<lambda>x. est x y) grid_x) grid_y"

text \<open>
  \<^verbatim>\<open>numpy.linspace(start, stop, num)\<close>: \<open>num\<close> must be an int (a float is a TypeError)
  and not negative; the samples are \<open>start + i * step\<close> with
  \<open>step = (stop - start) / (num - 1)\<close>, and the last of two or more is set to \<open>stop\<close>.
\<close>

definition linspace :: "real \<Rightarrow> real \<Rightarrow> number \<Rightarrow> error + real list" where
  "linspace start stop num =
     (case num of
        FloatNum _ \<Rightarrow> Inl LibraryError
      | IntNum n \<Rightarrow>
          if n < 0 then Inl LibraryError
          else
            let k = nat n;
                step = (stop - start) / real (k - 1);
                y = map (\<lambda>i. start + real i * step) [0..<k]
            in Inr (if 1 < k then y[k - 1 := stop] else y))"

text \<open>\<^verbatim>\<open>data.geometry.apply(lambda geom: [geom.x, geom.y])\<close>: fails on a geometry that
  is not a Point.\<close>

fun coordinates :: "'g shapely \<Rightarrow> 'g list \<Rightarrow> (real \<times> real) list option" where
  "coordinates L [] = Some []"
| "coordinates L (g # gs) =
     (case point_xy L g of
        None \<Rightarrow> None
      | Some p \<Rightarrow> (case coordinates L gs of None \<Rightarrow> None | Some ps \<Rightarrow> Some (p # ps)))"

text \<open>Lines 29 and 30 of \<^verbatim>\<open>_kriging\<close>: the coordinates of the grid nodes.\<close>

definition kriging_grid ::
  "number \<times> number \<Rightarrow> real \<times> real \<times> real \<times> real \<Rightarrow> error + real list \<times> real list" where
  "kriging_grid resolution extent =
     (case extent of (e0, e1, e2, e3) \<Rightarrow>
        (case linspace e0 e1 (fst resolution) of
           Inl e \<Rightarrow> Inl e
         | Inr grid_x \<Rightarrow>
             (case linspace e2 e3 (snd resolution) of
                Inl e \<Rightarrow> Inl e
              | Inr grid_y \<Rightarrow> Inr (grid_x, grid_y))))"

definition kriging_priv ::
  "'g shapely \<Rightarrow> pykrige \<Rightarrow> 'g geodataframe \<Rightarrow> string \<Rightarrow> number \<times> number
     \<Rightarrow> real \<times> real \<times> real \<times> real \<Rightarrow> variogram \<Rightarrow> kriging_method \<Rightarrow> string list
     \<Rightarrow> error + raster \<times> metadata" where
  "kriging_priv L K data target_column resolution extent variogram_model method drift_terms =
     (case coordinates L (geometry data) of
        None \<Rightarrow> Inl LibraryError
      | Some cs \<Rightarrow>
          (case map_of (attributes data) target_column of
             None \<Rightarrow> Inl LibraryError
           | Some column \<Rightarrow>
               (let z = map num_val (column_values column)
                in case kriging_grid resolution extent of
                  Inl e \<Rightarrow> Inl e
                | Inr (grid_x, grid_y) \<Rightarrow>
                    (case (case method of
                             Universal \<Rightarrow>
                               universal_kriging K (map fst cs) (map snd cs) z variogram_model drift_terms
                           | Ordinary \<Rightarrow>
                               ordinary_kriging K (map fst cs) (map snd cs) z variogram_model) of
                       None \<Rightarrow> Inl LibraryError
                     | Some est \<Rightarrow>
                         Inr (execute_grid est grid_x grid_y,
                              [(''crs'', MCrs (crs data)),
                               (''width'', MNum (real (length grid_x))),
                               (''height'', MNum (real (length grid_y)))])))))"

definition recognized_drift_terms :: "string list" where
  "recognized_drift_terms =
     [''regional_linear'', ''point_log'', ''external_Z'', ''specified'', ''functional'']"

text \<open>\<^verbatim>\<open>data.empty\<close> holds of a frame without rows; the geometry column is always there.\<close>

definition kriging ::
  "'g shapely \<Rightarrow> pykrige \<Rightarrow> 'g geodataframe \<Rightarrow> string \<Rightarrow> number \<times> number
     \<Rightarrow> real \<times> real \<times> real \<times> real \<Rightarrow> variogram \<Rightarrow> kriging_method \<Rightarrow> string list
     \<Rightarrow> error + raster \<times> metadata" where
  "kriging L K data target_column resolution extent variogram_model method drift_terms =
     (if geometry data = [] then Inl EmptyDataFrameException
      else if target_column \<notin> set (columns data)
        then Inl (InvalidParameterValueException P_target_column)
      else if num_val (fst resolution) \<le> 0 \<or> num_val (snd resolution) \<le> 0
        then Inl (InvalidParameterValueException P_resolution)
      else if list_ex (\<lambda>term. term \<notin> set recognized_drift_terms) drift_terms
        then Inl (InvalidParameterValueException P_drift_terms)
      else kriging_priv L K data target_column resolution extent variogram_model method
             drift_terms)"

section \<open>A concrete geometry library and solver\<close>

text \<open>
  An instance of the library parameters on which the functions can be run. A geometry is
  an axis-parallel rectangle \<open>[x0, x1] \<times> [y0, y1]\<close> grown by a radius \<open>rad\<close>: all points
  within distance \<open>rad\<close> of the rectangle. A Point is a rectangle without extent and
  radius; the planar buffer by \<open>d\<close> adds \<open>d\<close> to the radius; a pixel is burned when its
  centre lies in the shape.
\<close>

datatype rrect = RRect real real real real real

fun rr_bounds :: "rrect \<Rightarrow> bbox" where
  "rr_bounds (RRect x0 y0 x1 y1 rad) = (x0 - rad, y0 - rad, x1 + rad, y1 + rad)"

fun rr_buffer :: "rrect \<Rightarrow> real \<Rightarrow> rrect" where
  "rr_buffer (RRect x0 y0 x1 y1 rad) d = RRect x0 y0 x1 y1 (rad + d)"

fun rr_contains :: "rrect \<Rightarrow> real \<times> real \<Rightarrow> bool" where
  "rr_contains (RRect x0 y0 x1 y1 rad) p =
     (let dx = max (max (x0 - fst p) (fst p - x1)) 0;
          dy = max (max (y0 - snd p) (snd p - y1)) 0
      in dx * dx + dy * dy \<le> rad * rad)"

definition rr_burns :: "affine \<Rightarrow> rrect \<Rightarrow> nat \<Rightarrow> nat \<Rightarrow> bool" where
  "rr_burns T g row col = rr_contains g (apply_affine T (real col + 1 / 2, real row + 1 / 2))"

fun rr_point_xy :: "rrect \<Rightarrow> (real \<times> real) option" where
  "rr_point_xy (RRect x0 y0 x1 y1 rad) =
     (if x0 = x1 \<and> y0 = y1 \<and> rad = 0 then Some (x0, y0) else None)"

definition rr_lib :: "rrect shapely" where
  "rr_lib = \<lparr>bounds = rr_bounds, buffer = rr_buffer, burns = rr_burns, point_xy = rr_point_xy\<rparr>"

text \<open>A solver that always fits and estimates the mean of the samples everywhere.\<close>

definition mean_solver :: pykrige where
  "mean_solver =
     \<lparr>ordinary_kriging = (\<lambda>x y z v. Some (\<lambda>gx gy. sum_list z / real (length z))),
      universal_kriging = (\<lambda>x y z v d. Some (\<lambda>gx gy. sum_list z / real (length z)))\<rparr>"

definition frame_of :: "'g list \<Rightarrow> (string \<times> column) list \<Rightarrow> 'g geodataframe" where
  "frame_of gs cols = \<lparr>geometry = gs, attributes = cols, crs = Some ''EPSG:3067''\<rparr>"

text \<open>Three point samples with a value column \<open>z\<close>.\<close>

definition samples3 :: "rrect geodataframe" where
  "samples3 = frame_of [RRect 0 0 0 0 0, RRect 2 0 2 0 0, RRect 0 2 0 2 0] [(''z'', FloatColumn [1, 2, 3])]"

text \<open>A 4 by 2 rectangle and a smaller one lying on its lower edge, with a value column \<open>v\<close>.\<close>

definition two_boxes :: "rrect geodataframe" where
  "two_boxes = frame_of [RRect 0 0 4 2 0, RRect 1 0 3 1 0] [(''v'', IntColumn [7, 9])]"

text \<open>The profile of a base raster of 3 by 2 unit pixels with its corner at \<open>(0, 2)\<close>.\<close>

definition base_profile :: profile where
  "base_profile = \<lparr>p_width = 3, p_height = 2, p_transform = (1, 0, 0, 0, - 1, 2)\<rparr>"

text \<open>Two unit squares that touch at a corner.\<close>

definition diagonal_squares :: "rrect geodataframe" where
  "diagonal_squares = frame_of [RRect 0 0 1 1 0, RRect 2 1 3 2 0] []"

section \<open>Facts about the library functions\<close>

lemma minimum_Min: "xs \<noteq> [] \<Longrightarrow> minimum xs = Min (set xs)"
proof (cases xs)
  case (Cons a list)
  then show ?thesis using Min.set_eq_fold [of a list] by simp
qed simp

lemma maximum_Max: "xs \<noteq> [] \<Longrightarrow> maximum xs = Max (set xs)"
proof (cases xs)
  case (Cons a list)
  then show ?thesis using Max.set_eq_fold [of a list] by simp
qed simp

lemma minimum_le: "x \<in> set xs \<Longrightarrow> minimum xs \<le> x"
  by (cases "xs = []") (simp_all add: minimum_Min)

lemma maximum_ge: "x \<in> set xs \<Longrightarrow> x \<le> maximum xs"
  by (cases "xs = []") (simp_all add: maximum_Max)

lemma minimum_in: "xs \<noteq> [] \<Longrightarrow> minimum xs \<in> set xs"
  by (simp add: minimum_Min)

lemma maximum_in: "xs \<noteq> [] \<Longrightarrow> maximum xs \<in> set xs"
  by (simp add: maximum_Max)

lemma total_bounds_lower:
  assumes "g \<in> set (geometry gdf)" and "total_bounds L gdf = (min_x, min_y, max_x, max_y)"
    and "bounds L g = (x0, y0, x1, y1)"
  shows "min_x \<le> x0 \<and> min_y \<le> y0 \<and> x1 \<le> max_x \<and> y1 \<le> max_y"
proof -
  let ?bs = "map (bounds L) (geometry gdf)"
  have "x0 \<in> set (map fst ?bs)" "y0 \<in> set (map (fst \<circ> snd) ?bs)"
       "x1 \<in> set (map (fst \<circ> snd \<circ> snd) ?bs)" "y1 \<in> set (map (snd \<circ> snd \<circ> snd) ?bs)"
    using assms(1,3) by (force simp: image_iff)+
  then have "minimum (map fst ?bs) \<le> x0" "minimum (map (fst \<circ> snd) ?bs) \<le> y0"
       "x1 \<le> maximum (map (fst \<circ> snd \<circ> snd) ?bs)" "y1 \<le> maximum (map (snd \<circ> snd \<circ> snd) ?bs)"
    by (simp_all only: minimum_le maximum_ge)
  then show ?thesis using assms(2) by (simp add: total_bounds_def Let_def)
qed

lemma total_bounds_attained:
  assumes "geometry gdf \<noteq> []" and "total_bounds L gdf = (min_x, min_y, max_x, max_y)"
  shows "min_x \<in> (fst \<circ> bounds L) ` set (geometry gdf)
       \<and> min_y \<in> (fst \<circ> snd \<circ> bounds L) ` set (geometry gdf)
       \<and> max_x \<in> (fst \<circ> snd \<circ> snd \<circ> bounds L) ` set (geometry gdf)
       \<and> max_y \<in> (snd \<circ> snd \<circ> snd \<circ> bounds L) ` set (geometry gdf)"
proof -
  let ?bs = "map (bounds L) (geometry gdf)"
  have ne: "map f ?bs \<noteq> []" for f :: "bbox \<Rightarrow> real" using assms(1) by simp
  have "minimum (map fst ?bs) \<in> set (map fst ?bs)"
    by (rule minimum_in [OF ne])
  moreover have "minimum (map (fst \<circ> snd) ?bs) \<in> set (map (fst \<circ> snd) ?bs)"
    by (rule minimum_in [OF ne])
  moreover have "maximum (map (fst \<circ> snd \<circ> snd) ?bs) \<in> set (map (fst \<circ> snd \<circ> snd) ?bs)"
    by (rule maximum_in [OF ne])
  moreover have "maximum (map (snd \<circ> snd \<circ> snd) ?bs) \<in> set (map (snd \<circ> snd \<circ> snd) ?bs)"
    by (rule maximum_in [OF ne])
  ultimately show ?thesis using assms(2)
    by (simp add: total_bounds_def Let_def image_image comp_def)
qed

lemma from_bounds_origin:
  "apply_affine (from_bounds west south east north width height) (0, 0) = (west, north)"
  by (simp add: apply_affine_def from_bounds_def)

lemma from_bounds_corner:
  "width \<noteq> 0 \<Longrightarrow> height \<noteq> 0 \<Longrightarrow>
   apply_affine (from_bounds west south east north width height) (width, height) = (east, south)"
  by (simp add: apply_affine_def from_bounds_def)

lemma pyround_near: "\<bar>x - of_int (pyround x)\<bar> \<le> 1 / 2"
  unfolding pyround_def Let_def by (auto; linarith)

lemma pyround_tie: "\<bar>x - of_int (pyround x)\<bar> = 1 / 2 \<Longrightarrow> even (pyround x)"
  unfolding pyround_def Let_def by (auto split: if_splits; linarith)

lemma burn_length: "length (burn L T dv h w out s) = h"
  by (simp add: burn_def)

lemma burn_row_length: "r < h \<Longrightarrow> length (burn L T dv h w out s ! r) = w"
  by (simp add: burn_def)

lemma burn_cell:
  "r < h \<Longrightarrow> c < w \<Longrightarrow>
   burn L T dv h w out s ! r ! c
     = (if burns L T (fst s) r c then num_val (shape_value dv s) else out ! r ! c)"
  by (simp add: burn_def)

lemma foldl_burn_length:
  "length out = h \<Longrightarrow> length (foldl (burn L T dv h w) out shapes) = h"
  by (induction shapes arbitrary: out) (simp_all add: burn_length)

lemma foldl_burn_row_length:
  "r < h \<Longrightarrow> length (out ! r) = w \<Longrightarrow> length (foldl (burn L T dv h w) out shapes ! r) = w"
  by (induction shapes arbitrary: out) (simp_all add: burn_row_length)

text \<open>What one pixel holds after all shapes were burned.\<close>

lemma foldl_burn_cell:
  "r < h \<Longrightarrow> c < w \<Longrightarrow>
   foldl (burn L T dv h w) out shapes ! r ! c =
   foldl (\<lambda>v s. if burns L T (fst s) r c then num_val (shape_value dv s) else v)
     (out ! r ! c) shapes"
  by (induction shapes arbitrary: out) (simp_all add: burn_cell)

lemma foldl_cell_none:
  "\<forall>s \<in> set shapes. \<not> burns L T (fst s) r c \<Longrightarrow>
   foldl (\<lambda>v s. if burns L T (fst s) r c then num_val (shape_value dv s) else v) v0 shapes = v0"
  by (induction shapes arbitrary: v0) simp_all

lemma foldl_cell_last:
  assumes "i < length shapes" and "burns L T (fst (shapes ! i)) r c"
    and "\<forall>j. i < j \<and> j < length shapes \<longrightarrow> \<not> burns L T (fst (shapes ! j)) r c"
  shows "foldl (\<lambda>v s. if burns L T (fst s) r c then num_val (shape_value dv s) else v) v0 shapes
         = num_val (shape_value dv (shapes ! i))"
proof -
  have split: "shapes = take i shapes @ shapes ! i # drop (Suc i) shapes"
    using assms(1) by (simp add: id_take_nth_drop)
  have rest: "\<forall>s \<in> set (drop (Suc i) shapes). \<not> burns L T (fst s) r c"
  proof
    fix s assume "s \<in> set (drop (Suc i) shapes)"
    then obtain k where k: "k < length shapes - Suc i" "s = drop (Suc i) shapes ! k"
      by (auto simp: in_set_conv_nth)
    then have "s = shapes ! (Suc i + k)" by simp
    with k assms(3) show "\<not> burns L T (fst s) r c" by simp
  qed
  have "foldl (\<lambda>v s. if burns L T (fst s) r c then num_val (shape_value dv s) else v) v0 shapes
        = foldl (\<lambda>v s. if burns L T (fst s) r c then num_val (shape_value dv s) else v) v0
            (take i shapes @ shapes ! i # drop (Suc i) shapes)"
    using split by simp
  also have "\<dots> = num_val (shape_value dv (shapes ! i))"
    using assms(2) by (simp add: foldl_cell_none [OF rest])
  finally show ?thesis .
qed

lemma features_rasterize_Inr:
  assumes "features_rasterize L shapes fill dv T (h, w) = Inr arr"
  shows "\<exists>filled. fill_as (list_all is_int (map (shape_value dv) shapes)) fill = Inr filled
           \<and> 0 < h \<and> 0 < w
           \<and> arr = foldl (burn L T dv (nat h) (nat w))
                     (replicate (nat h) (replicate (nat w) filled)) shapes"
  using assms unfolding features_rasterize_def
  by (auto simp: Let_def split: if_splits sum.splits)

lemma features_rasterize_shape:
  assumes "features_rasterize L shapes fill dv T (h, w) = Inr arr"
  shows "0 < h \<and> 0 < w \<and> length arr = nat h \<and> (\<forall>r < nat h. length (arr ! r) = nat w)"
  using features_rasterize_Inr [OF assms]
  by (auto simp: foldl_burn_length foldl_burn_row_length)

lemma features_rasterize_cell:
  assumes "features_rasterize L shapes fill dv T (h, w) = Inr arr" and "r < nat h" and "c < nat w"
  shows "\<exists>filled. fill_as (list_all is_int (map (shape_value dv) shapes)) fill = Inr filled
           \<and> arr ! r ! c =
               foldl (\<lambda>v s. if burns L T (fst s) r c then num_val (shape_value dv s) else v)
                 filled shapes"
  using features_rasterize_Inr [OF assms(1)] assms(2,3)
  by (auto simp: foldl_burn_cell)


lemma linspace_Inr:
  assumes "linspace start stop num = Inr xs"
  shows "\<exists>n. num = IntNum n \<and> 0 \<le> n \<and> length xs = nat n"
  using assms unfolding linspace_def
  by (auto simp: Let_def split: number.splits if_splits)

lemma linspace_total:
  "0 \<le> n \<Longrightarrow> \<exists>xs. linspace start stop (IntNum n) = Inr xs"
  by (simp add: linspace_def Let_def)

lemma linspace_nth:
  assumes "linspace start stop (IntNum n) = Inr xs" and "i < nat n" and "1 < n"
  shows "xs ! i = start + real i * (stop - start) / real (nat n - 1)"
proof -
  have k: "1 < nat n" using assms(3) by simp
  have xs: "xs = (map (\<lambda>i. start + real i * ((stop - start) / real (nat n - 1))) [0..<nat n])
                   [nat n - 1 := stop]"
    using assms(1,3) by (simp add: linspace_def Let_def)
  show ?thesis
  proof (cases "i = nat n - 1")
    case True
    then have "xs ! i = stop" using xs assms(2) by simp
    moreover have "real (nat n - 1) \<noteq> 0" using k by simp
    ultimately show ?thesis using True by simp
  next
    case False
    then show ?thesis using xs assms(2) by simp
  qed
qed

lemma linspace_first:
  assumes "linspace start stop (IntNum n) = Inr xs" and "0 < n"
  shows "xs ! 0 = start"
proof (cases "1 < n")
  case True
  then show ?thesis using linspace_nth [OF assms(1), of 0] assms(2) by simp
next
  case False
  then have "n = 1" using assms(2) by simp
  then show ?thesis using assms(1) by (auto simp: linspace_def Let_def)
qed

lemma linspace_last:
  assumes "linspace start stop (IntNum n) = Inr xs" and "1 < n"
  shows "xs ! (nat n - 1) = stop"
proof -
  have "real (nat n - 1) \<noteq> 0" using assms(2) by simp
  then show ?thesis using linspace_nth [OF assms(1), of "nat n - 1"] assms(2) by simp
qed

lemma kriging_grid_Inr:
  assumes "kriging_grid res (e0, e1, e2, e3) = Inr (gx, gy)"
  shows "linspace e0 e1 (fst res) = Inr gx \<and> linspace e2 e3 (snd res) = Inr gy"
  using assms unfolding kriging_grid_def by (auto split: sum.splits)

lemma execute_grid_shape:
  "length (execute_grid est gx gy) = length gy
   \<and> (\<forall>row \<in> set (execute_grid est gx gy). length row = length gx)
   \<and> length (concat (execute_grid est gx gy)) = length gx * length gy"
proof -
  have "length (concat (map (\<lambda>y. map (\<lambda>x. est x y) gx) gy)) = length gx * length gy"
    by (induction gy) simp_all
  then show ?thesis by (auto simp: execute_grid_def)
qed

lemma execute_grid_nth:
  "j < length gy \<Longrightarrow> i < length gx \<Longrightarrow> execute_grid est gx gy ! j ! i = est (gx ! i) (gy ! j)"
  by (simp add: execute_grid_def)

lemma coordinates_length: "coordinates L gs = Some cs \<Longrightarrow> length cs = length gs"
  by (induction gs arbitrary: cs) (auto split: option.splits)

section \<open>What a successful call went through\<close>

lemma rasterize_vector_priv_Inr:
  assumes "rasterize_vector_priv L gdf vc dv fv base res = Inr (arr, meta)"
  shows "\<exists>pairs w h T.
           geometry_value_pairs gdf vc = Inr pairs \<and> grid_frame L gdf base res = (w, h, T)
         \<and> features_rasterize L pairs fv dv T (pyround h, pyround w) = Inr arr
         \<and> meta = [(''transform'', MTransform T), (''height'', MNum h), (''width'', MNum w)]"
  using assms unfolding rasterize_vector_priv_def
  by (auto split: sum.splits prod.splits)

lemma rasterize_vector_Inr:
  assumes "fst (rasterize_vector L gdf res vc dv fv base bv) = Inr (arr, meta)"
  shows "geometry gdf \<noteq> [] \<and> 0 < res
       \<and> rasterize_vector_priv L (snd (rasterize_vector L gdf res vc dv fv base bv))
           vc dv fv base res = Inr (arr, meta)"
  using assms unfolding rasterize_vector_def
  by (auto simp: Let_def split: if_splits)

lemma kriging_Inr:
  assumes "kriging L K data col res ext vm meth drifts = Inr (arr, meta)"
  shows "geometry data \<noteq> [] \<and> col \<in> set (columns data)
       \<and> 0 < num_val (fst res) \<and> 0 < num_val (snd res)
       \<and> (\<forall>t \<in> set drifts. t \<in> set recognized_drift_terms)
       \<and> kriging_priv L K data col res ext vm meth drifts = Inr (arr, meta)"
  using assms unfolding kriging_def
  by (auto simp: list_ex_iff split: if_splits)

lemma kriging_priv_Inr:
  assumes "kriging_priv L K data col res ext vm meth drifts = Inr (arr, meta)"
  shows "\<exists>cs z gx gy est.
           coordinates L (geometry data) = Some cs \<and> map_of (attributes data) col = Some z
         \<and> kriging_grid res ext = Inr (gx, gy)
         \<and> (case meth of
               Universal \<Rightarrow> universal_kriging K (map fst cs) (map snd cs)
                   (map num_val (column_values z)) vm drifts
             | Ordinary \<Rightarrow> ordinary_kriging K (map fst cs) (map snd cs)
                   (map num_val (column_values z)) vm) = Some est
         \<and> arr = execute_grid est gx gy
         \<and> meta = [(''crs'', MCrs (crs data)), (''width'', MNum (real (length gx))),
                    (''height'', MNum (real (length gy)))]"
  using assms unfolding kriging_priv_def
  by (auto simp: Let_def split: option.splits sum.splits prod.splits)

lemma rasterize_vector_frame_same:
  "attributes (snd (rasterize_vector L gdf res vc dv fv base bv)) = attributes gdf
   \<and> length (geometry (snd (rasterize_vector L gdf res vc dv fv base bv))) = length (geometry gdf)"
  unfolding rasterize_vector_def by (auto simp: Let_def split: option.splits)

lemma rasterize_vector_wf:
  "wf_frame gdf \<Longrightarrow> wf_frame (snd (rasterize_vector L gdf res vc dv fv base bv))"
  using rasterize_vector_frame_same [of L gdf res vc dv fv base bv]
  by (simp add: wf_frame_def)

lemma geometry_value_pairs_nth:
  assumes "geometry_value_pairs gdf vc = Inr pairs" and "wf_frame gdf"
  shows "length pairs = length (geometry gdf)
       \<and> (\<forall>i < length (geometry gdf). fst (pairs ! i) = geometry gdf ! i
            \<and> shape_value dv (pairs ! i)
                = (case vc of None \<Rightarrow> dv
                   | Some col \<Rightarrow> column_values (the (map_of (attributes gdf) col)) ! i))"
proof (cases vc)
  case None
  then have "pairs = map (\<lambda>g. (g, None)) (geometry gdf)"
    using assms(1) by (simp add: geometry_value_pairs_def)
  then show ?thesis using None by (simp add: shape_value_def)
next
  case (Some col)
  then obtain vs where vs: "map_of (attributes gdf) col = Some vs"
    and pairs: "pairs = zip (geometry gdf) (map Some (column_values vs))"
    using assms(1) by (auto simp: geometry_value_pairs_def split: option.splits)
  have "(col, vs) \<in> set (attributes gdf)" using vs by (rule map_of_SomeD)
  then have len: "length (column_values vs) = length (geometry gdf)"
    using assms(2) by (auto simp: wf_frame_def list_all_iff)
  show ?thesis using Some vs pairs len by (simp add: shape_value_def)
qed

text \<open>The data type of the array: int64 when the burned values are ints.\<close>

lemma geometry_value_pairs_dtype:
  assumes "geometry_value_pairs gdf vc = Inr pairs" and "wf_frame gdf" and "geometry gdf \<noteq> []"
  shows "list_all is_int (map (shape_value dv) pairs)
           = (case vc of None \<Rightarrow> is_int dv
              | Some col \<Rightarrow> list_all is_int (column_values (the (map_of (attributes gdf) col))))"
proof (cases vc)
  case None
  then have "pairs = map (\<lambda>g. (g, None)) (geometry gdf)"
    using assms(1) by (simp add: geometry_value_pairs_def)
  then show ?thesis using None assms(3)
    by (cases "geometry gdf") (auto simp: shape_value_def list_all_iff)
next
  case (Some col)
  then obtain vs where vs: "map_of (attributes gdf) col = Some vs"
    and pairs: "pairs = zip (geometry gdf) (map Some (column_values vs))"
    using assms(1) by (auto simp: geometry_value_pairs_def split: option.splits)
  have "(col, vs) \<in> set (attributes gdf)" using vs by (rule map_of_SomeD)
  then have len: "length (column_values vs) = length (geometry gdf)"
    using assms(2) by (auto simp: wf_frame_def list_all_iff)
  have "map (shape_value dv) pairs = column_values vs"
    unfolding pairs using len
    by (intro nth_equalityI) (simp_all add: shape_value_def)
  then show ?thesis using Some vs by simp
qed

lemma rasterize_vector_cells:
  assumes ok: "fst (rasterize_vector L gdf res vc dv fv base bv) = Inr (arr, meta)"
    and wf: "wf_frame gdf"
    and gs: "gs = geometry (snd (rasterize_vector L gdf res vc dv fv base bv))"
  shows "\<exists>pairs w h T filled.
           grid_frame L (snd (rasterize_vector L gdf res vc dv fv base bv)) base res = (w, h, T)
         \<and> meta = [(''transform'', MTransform T), (''height'', MNum h), (''width'', MNum w)]
         \<and> 0 < pyround h \<and> 0 < pyround w
         \<and> length arr = nat (pyround h)
         \<and> (\<forall>r < nat (pyround h). length (arr ! r) = nat (pyround w))
         \<and> length pairs = length gs
         \<and> (\<forall>i < length gs. fst (pairs ! i) = gs ! i
              \<and> shape_value dv (pairs ! i)
                  = (case vc of None \<Rightarrow> dv
                     | Some col \<Rightarrow> column_values (the (map_of (attributes gdf) col)) ! i))
         \<and> fill_as (case vc of None \<Rightarrow> is_int dv
                     | Some col \<Rightarrow>
                         list_all is_int (column_values (the (map_of (attributes gdf) col))))
              fv = Inr filled
         \<and> (\<forall>r < nat (pyround h). \<forall>c < nat (pyround w).
               arr ! r ! c
                 = foldl (\<lambda>v s. if burns L T (fst s) r c then num_val (shape_value dv s) else v)
                     filled pairs)"
proof -
  let ?gdf' = "snd (rasterize_vector L gdf res vc dv fv base bv)"
  from rasterize_vector_Inr [OF ok] have ne: "geometry gdf \<noteq> []" and
    priv: "rasterize_vector_priv L ?gdf' vc dv fv base res = Inr (arr, meta)" by simp_all
  from rasterize_vector_priv_Inr [OF priv] obtain pairs w h T where
    pairs: "geometry_value_pairs ?gdf' vc = Inr pairs"
    and gf: "grid_frame L ?gdf' base res = (w, h, T)"
    and fr: "features_rasterize L pairs fv dv T (pyround h, pyround w) = Inr arr"
    and meta: "meta = [(''transform'', MTransform T), (''height'', MNum h), (''width'', MNum w)]"
    by auto
  have same: "attributes ?gdf' = attributes gdf"
    "length (geometry ?gdf') = length (geometry gdf)"
    using rasterize_vector_frame_same [of L gdf res vc dv fv base bv] by simp_all
  have ne': "geometry ?gdf' \<noteq> []" using ne same(2) by (metis length_0_conv)
  from geometry_value_pairs_nth [OF pairs rasterize_vector_wf [OF wf], of dv]
  have pn: "length pairs = length gs"
    "\<forall>i < length gs. fst (pairs ! i) = gs ! i
              \<and> shape_value dv (pairs ! i)
                  = (case vc of None \<Rightarrow> dv
                     | Some col \<Rightarrow> column_values (the (map_of (attributes gdf) col)) ! i)"
    unfolding same(1) gs by simp_all
  have dt: "list_all is_int (map (shape_value dv) pairs)
           = (case vc of None \<Rightarrow> is_int dv
              | Some col \<Rightarrow> list_all is_int (column_values (the (map_of (attributes gdf) col))))"
    using geometry_value_pairs_dtype [OF pairs rasterize_vector_wf [OF wf] ne', of dv]
    unfolding same(1) .
  from features_rasterize_Inr [OF fr] obtain filled where
    filled: "fill_as (list_all is_int (map (shape_value dv) pairs)) fv = Inr filled"
    and arr: "arr = foldl (burn L T dv (nat (pyround h)) (nat (pyround w)))
                     (replicate (nat (pyround h)) (replicate (nat (pyround w)) filled)) pairs"
    by auto
  have cells: "\<forall>r < nat (pyround h). \<forall>c < nat (pyround w).
               arr ! r ! c
                 = foldl (\<lambda>v s. if burns L T (fst s) r c then num_val (shape_value dv s) else v)
                     filled pairs"
    unfolding arr by (simp add: foldl_burn_cell)
  show ?thesis
    using gf meta features_rasterize_shape [OF fr] pn filled [unfolded dt] cells
    by (intro exI [of _ pairs] exI [of _ w] exI [of _ h] exI [of _ T] exI [of _ filled]) simp
qed


section \<open>Runs on concrete inputs\<close>

lemma two_boxes_run:
  "fst (rasterize_vector rr_lib two_boxes 1 (Some ''v'') (IntNum 5) (IntNum 0) None None)
     = Inr ([[7, 7, 7, 7], [7, 9, 9, 7]],
            [(''transform'', MTransform (1, 0, 0, 0, - 1, 2)),
             (''height'', MNum 2), (''width'', MNum 4)])"
  by code_simp

lemma samples3_run:
  "kriging rr_lib mean_solver samples3 ''z'' (IntNum 3, IntNum 2) (0, 2, 0, 4) Linear Ordinary
       [''regional_linear'']
     = Inr ([[2, 2, 2], [2, 2, 2]],
            [(''crs'', MCrs (Some ''EPSG:3067'')), (''width'', MNum 3), (''height'', MNum 2)])"
  by code_simp

lemma samples3_grid:
  "kriging_grid (IntNum 3, IntNum 2) (0, 2, 0, 4) = Inr ([0, 1, 2], [0, 4])"
  by code_simp

lemma two_boxes_frame:
  "total_bounds rr_lib two_boxes = (0, 0, 4, 2)
   \<and> transform_from_geometries_priv rr_lib two_boxes 1 = (4, 2, (1, 0, 0, 0, - 1, 2))"
  by code_simp

lemma two_boxes_geometry: "geometry two_boxes = [RRect 0 0 4 2 0, RRect 1 0 3 1 0]"
  by (simp add: two_boxes_def frame_of_def)

lemma two_boxes_bounds: "total_bounds rr_lib two_boxes = (0, 0, 4, 2)"
  by code_simp

lemma two_boxes_base_run:
  "rasterize_vector_priv rr_lib two_boxes (Some ''v'') (IntNum 5) (IntNum 0) (Some base_profile) (1 / 2)
     = Inr ([[7, 7, 7], [7, 9, 9]],
            [(''transform'', MTransform (1, 0, 0, 0, - 1, 2)),
             (''height'', MNum 2), (''width'', MNum 3)])"
  by code_simp

lemma two_boxes_burns:
  "rr_burns (1, 0, 0, 0, - 1, 2) (RRect 0 0 4 2 0) 1 1
   \<and> rr_burns (1, 0, 0, 0, - 1, 2) (RRect 1 0 3 1 0) 1 1"
  by (simp add: rr_burns_def apply_affine_def)

lemma two_boxes_wf: "wf_frame two_boxes"
  by (simp add: wf_frame_def two_boxes_def frame_of_def)

lemma two_boxes_after:
  "snd (rasterize_vector rr_lib two_boxes 1 (Some ''v'') (IntNum 5) (IntNum 0) None None) = two_boxes"
  by (simp add: rasterize_vector_def two_boxes_def frame_of_def columns_def Let_def)




text \<open>An int fill value outside the int64 range is refused by an int64 array.\<close>

lemma diagonal_squares_overflow_run:
  "fst (rasterize_vector rr_lib diagonal_squares 1 None (IntNum 5) (IntNum (2 ^ 63)) None None)
     = Inl LibraryError"
  by code_simp



lemma two_boxes_tie_run:
  "fst (rasterize_vector rr_lib two_boxes (4 / 5) (Some ''v'') (IntNum 5) (IntNum 0) None None)
     = Inr ([[7, 7, 7, 7, 7], [7, 9, 9, 9, 7]],
            [(''transform'', MTransform (4 / 5, 0, 0, 0, - (4 / 5), 2)),
             (''height'', MNum (5 / 2)), (''width'', MNum 5)])"
  by code_simp

lemma two_boxes_tie_frame:
  "transform_from_geometries_priv rr_lib two_boxes (4 / 5)
     = (5, 5 / 2, (4 / 5, 0, 0, 0, - (4 / 5), 2))"
  by code_simp

lemma two_boxes_tie_after:
  "snd (rasterize_vector rr_lib two_boxes (4 / 5) (Some ''v'') (IntNum 5) (IntNum 0) None None) = two_boxes"
  by (simp add: rasterize_vector_def two_boxes_def frame_of_def columns_def Let_def)

lemma half_not_int: "(5 / 2 :: real) \<notin> \<int>"
proof
  assume "(5 / 2 :: real) \<in> \<int>"
  then have "frac (5 / 2 :: real) = 0" by (simp add: frac_eq_0_iff)
  then show False by (simp add: frac_def)
qed

lemma pyround_half: "pyround (5 / 2) = 2 \<and> pyround 5 = 5"
  by (simp add: pyround_def)

section \<open>The rasterizer and its input frame\<close>

text \<open>
  C1, as the code has it. The attribute columns and the CRS of the frame the caller
  passed are never touched. Its geometry column is left alone when no buffer value is given
  and when a check fails; when a buffer value \<open>d\<close> is given and the checks pass, the
  geometry column of the caller's own frame is overwritten with the buffered geometries.
\<close>

theorem rasterize_vector_frame_effect:
  "snd (rasterize_vector L gdf res vc dv fv base bv) =
     (if geometry gdf \<noteq> [] \<and> 0 < res \<and> (\<forall>c. vc = Some c \<longrightarrow> c \<in> set (columns gdf))
         \<and> (\<exists>d. bv = Some d \<and> 0 \<le> d)
      then gdf\<lparr>geometry := map (\<lambda>geom. buffer L geom (the bv)) (geometry gdf)\<rparr>
      else gdf)"
  unfolding rasterize_vector_def by (auto simp: Let_def split: option.splits)

theorem rasterize_vector_frame_effect_witness:
  "snd (rasterize_vector rr_lib two_boxes 1 (Some ''v'') (IntNum 5) (IntNum 0) None (Some 2))
     = frame_of [RRect 0 0 4 2 2, RRect 1 0 3 1 2] [(''v'', IntColumn [7, 9])]
   \<and> snd (rasterize_vector rr_lib two_boxes 1 (Some ''v'') (IntNum 5) (IntNum 0) None None) = two_boxes"
  using rasterize_vector_frame_effect [of rr_lib two_boxes 1 "Some ''v''" "IntNum 5" "IntNum 0" None "Some 2"]
    rasterize_vector_frame_effect [of rr_lib two_boxes 1 "Some ''v''" "IntNum 5" "IntNum 0" None None]
  by (simp add: two_boxes_def frame_of_def rr_lib_def columns_def)

text \<open>
  C1 as the specification states it fails: with the buffer distance \<open>1 \<ge> 0\<close> the
  square \<open>(0,0)-(10,10)\<close> of the caller's frame has become the square grown by 1.
\<close>

theorem rasterize_vector_mutates_input:
  "(0::real) \<le> 1
   \<and> geometry (snd (rasterize_vector rr_lib (frame_of [RRect 0 0 10 10 0] []) 1 None (IntNum 5) (IntNum 0) None (Some 1)))
       = [RRect 0 0 10 10 1]
   \<and> geometry (snd (rasterize_vector rr_lib (frame_of [RRect 0 0 10 10 0] []) 1 None (IntNum 5) (IntNum 0) None (Some 1)))
       \<noteq> geometry (frame_of [RRect 0 0 10 10 0] [])"
  by (simp add: rasterize_vector_def frame_of_def rr_lib_def Let_def)

section \<open>Metadata\<close>

text \<open>
  C2, as the code has it. A successful rasterizer call returns metadata with exactly the
  keys \<open>transform\<close> (an affine 6-tuple), \<open>height\<close> and \<open>width\<close>. A successful
  interpolator call returns metadata with exactly the keys \<open>crs\<close> (the CRS of the input
  samples), \<open>width\<close> and \<open>height\<close>; it has no \<open>transform\<close>.
\<close>

theorem metadata_keys:
  "(fst (rasterize_vector L gdf res vc dv fv base bv) = Inr (arr, meta) \<longrightarrow>
      map fst meta = [''transform'', ''height'', ''width'']
    \<and> (\<exists>T h w. map_of meta ''transform'' = Some (MTransform T)
         \<and> map_of meta ''height'' = Some (MNum h) \<and> map_of meta ''width'' = Some (MNum w)))
   \<and> (kriging L K data col kres ext vm meth drifts = Inr (karr, kmeta) \<longrightarrow>
      map fst kmeta = [''crs'', ''width'', ''height'']
    \<and> map_of kmeta ''crs'' = Some (MCrs (crs data))
    \<and> (\<exists>h w. map_of kmeta ''height'' = Some (MNum h) \<and> map_of kmeta ''width'' = Some (MNum w))
    \<and> map_of kmeta ''transform'' = None)"
proof (intro conjI impI)
  assume "fst (rasterize_vector L gdf res vc dv fv base bv) = Inr (arr, meta)"
  then have "rasterize_vector_priv L (snd (rasterize_vector L gdf res vc dv fv base bv))
           vc dv fv base res = Inr (arr, meta)"
    by (simp add: rasterize_vector_Inr)
  from rasterize_vector_priv_Inr [OF this] obtain T h w where
    "meta = [(''transform'', MTransform T), (''height'', MNum h), (''width'', MNum w)]"
    by auto
  then show "map fst meta = [''transform'', ''height'', ''width'']"
    and "\<exists>T h w. map_of meta ''transform'' = Some (MTransform T)
         \<and> map_of meta ''height'' = Some (MNum h) \<and> map_of meta ''width'' = Some (MNum w)"
    by (simp_all del: split_paired_Ex)
next
  assume "kriging L K data col kres ext vm meth drifts = Inr (karr, kmeta)"
  then have "kriging_priv L K data col kres ext vm meth drifts = Inr (karr, kmeta)"
    by (simp add: kriging_Inr)
  from kriging_priv_Inr [OF this] obtain gx gy :: "real list" where
    "kmeta = [(''crs'', MCrs (crs data)), (''width'', MNum (real (length gx))),
              (''height'', MNum (real (length gy)))]"
    by auto
  then show "map fst kmeta = [''crs'', ''width'', ''height'']"
    and "map_of kmeta ''crs'' = Some (MCrs (crs data))"
    and "\<exists>h w. map_of kmeta ''height'' = Some (MNum h) \<and> map_of kmeta ''width'' = Some (MNum w)"
    and "map_of kmeta ''transform'' = None"
    by simp_all
qed

theorem metadata_keys_witness:
  "fst (rasterize_vector rr_lib two_boxes 1 (Some ''v'') (IntNum 5) (IntNum 0) None None)
     = Inr ([[7, 7, 7, 7], [7, 9, 9, 7]],
            [(''transform'', MTransform (1, 0, 0, 0, - 1, 2)),
             (''height'', MNum 2), (''width'', MNum 4)])
   \<and> map fst [(''transform'', MTransform (1, 0, 0, 0, - 1, 2)),
               (''height'', MNum 2), (''width'', MNum (4::real))]
       = [''transform'', ''height'', ''width'']
   \<and> kriging rr_lib mean_solver samples3 ''z'' (IntNum 3, IntNum 2) (0, 2, 0, 4) Linear Ordinary
       [''regional_linear'']
     = Inr ([[2, 2, 2], [2, 2, 2]],
            [(''crs'', MCrs (Some ''EPSG:3067'')), (''width'', MNum 3), (''height'', MNum 2)])
   \<and> map_of [(''crs'', MCrs (Some ''EPSG:3067'')), (''width'', MNum 3), (''height'', MNum 2)]
        ''crs'' = Some (MCrs (crs samples3))"
  using metadata_keys [of rr_lib two_boxes 1 "Some ''v''" "IntNum 5" "IntNum 0" None None
      "[[7, 7, 7, 7], [7, 9, 9, 7]]"
      "[(''transform'', MTransform (1, 0, 0, 0, - 1, 2)), (''height'', MNum 2), (''width'', MNum 4)]"
      mean_solver samples3 "''z''" "(IntNum 3, IntNum 2)" "(0, 2, 0, 4)" Linear Ordinary
      "[''regional_linear'']" "[[2, 2, 2], [2, 2, 2]]"
      "[(''crs'', MCrs (Some ''EPSG:3067'')), (''width'', MNum 3), (''height'', MNum 2)]"]
    two_boxes_run samples3_run
  by simp

text \<open>
  C2 as the specification states it fails for the interpolator: this successful call
  returns metadata without a \<open>transform\<close>.
\<close>

theorem kriging_metadata_without_transform:
  "kriging rr_lib mean_solver samples3 ''z'' (IntNum 2, IntNum 2) (0, 2, 0, 2) Linear Ordinary
       [''regional_linear'']
     = Inr ([[2, 2], [2, 2]],
            [(''crs'', MCrs (Some ''EPSG:3067'')), (''width'', MNum 2), (''height'', MNum 2)])
   \<and> ''transform'' \<notin> set (map fst
        [(''crs'', MCrs (Some ''EPSG:3067'')), (''width'', MNum 2), (''height'', MNum (2::real))])"
  by code_simp

section \<open>Precondition failures\<close>

text \<open>
  C3, as the code has it. The checks come first in both functions and stop at the first
  one that fails, whatever the libraries would do (the statement holds for every \<open>L\<close> and
  \<open>K\<close>), and the rasterizer hands the frame back as it was, so nothing was buffered. An
  empty input gives \<open>EmptyDataFrameException\<close> in both. For the other violations the
  interpolator raises the toolkit's \<open>InvalidParameterValueException\<close>, while the rasterizer
  raises Python's builtin \<open>ValueError\<close>; either is about the first offending parameter in
  the order of the checks.
\<close>

theorem precondition_failures:
  "(geometry gdf = [] \<longrightarrow>
      rasterize_vector L gdf res vc dv fv base bv = (Inl EmptyDataFrameException, gdf))
   \<and> (geometry gdf \<noteq> [] \<and> \<not> 0 < res \<longrightarrow>
      rasterize_vector L gdf res vc dv fv base bv = (Inl (ValueError P_resolution), gdf))
   \<and> (geometry gdf \<noteq> [] \<and> 0 < res \<and> vc = Some c \<and> c \<notin> set (columns gdf) \<longrightarrow>
      rasterize_vector L gdf res vc dv fv base bv = (Inl (ValueError P_value_column), gdf))
   \<and> (geometry gdf \<noteq> [] \<and> 0 < res \<and> (vc = None \<or> the vc \<in> set (columns gdf))
        \<and> bv = Some d \<and> d < 0 \<longrightarrow>
      rasterize_vector L gdf res vc dv fv base bv = (Inl (ValueError P_buffer_value), gdf))
   \<and> (geometry data = [] \<longrightarrow>
      kriging L K data col kres ext vm meth drifts = Inl EmptyDataFrameException)
   \<and> (geometry data \<noteq> [] \<and> col \<notin> set (columns data) \<longrightarrow>
      kriging L K data col kres ext vm meth drifts
        = Inl (InvalidParameterValueException P_target_column))
   \<and> (geometry data \<noteq> [] \<and> col \<in> set (columns data)
        \<and> (num_val (fst kres) \<le> 0 \<or> num_val (snd kres) \<le> 0) \<longrightarrow>
      kriging L K data col kres ext vm meth drifts
        = Inl (InvalidParameterValueException P_resolution))"
  by (auto simp: rasterize_vector_def kriging_def)

theorem precondition_failures_witness:
  "rasterize_vector rr_lib (frame_of [] []) 1 None (IntNum 5) (IntNum 0) None None
     = (Inl EmptyDataFrameException, frame_of [] [])
   \<and> rasterize_vector rr_lib two_boxes 0 None (IntNum 5) (IntNum 0) None None
     = (Inl (ValueError P_resolution), two_boxes)
   \<and> rasterize_vector rr_lib two_boxes 1 (Some ''w'') (IntNum 5) (IntNum 0) None (Some 1)
     = (Inl (ValueError P_value_column), two_boxes)
   \<and> rasterize_vector rr_lib two_boxes 1 (Some ''v'') (IntNum 5) (IntNum 0) None (Some (- 1))
     = (Inl (ValueError P_buffer_value), two_boxes)
   \<and> kriging rr_lib mean_solver (frame_of [] [(''z'', FloatColumn [])]) ''z'' (IntNum 3, IntNum 2)
        (0, 2, 0, 4) Linear Ordinary [''regional_linear'']
     = Inl EmptyDataFrameException
   \<and> kriging rr_lib mean_solver samples3 ''w'' (IntNum 3, IntNum 2)
        (0, 2, 0, 4) Linear Ordinary [''regional_linear'']
     = Inl (InvalidParameterValueException P_target_column)
   \<and> kriging rr_lib mean_solver samples3 ''z'' (IntNum 3, FloatNum 0)
        (0, 2, 0, 4) Linear Ordinary [''regional_linear'']
     = Inl (InvalidParameterValueException P_resolution)"
  using precondition_failures [where gdf = "frame_of [] []" and L = rr_lib and res = 1
          and vc = None and dv = "IntNum 5" and fv = "IntNum 0" and base = None and bv = None
          and data = "frame_of [] [(''z'', FloatColumn [])]" and K = mean_solver and col = "''z''"
          and kres = "(IntNum 3, IntNum 2)" and ext = "(0, 2, 0, 4)" and vm = Linear
          and meth = Ordinary and drifts = "[''regional_linear'']"]
    precondition_failures [where gdf = two_boxes and L = rr_lib and res = 0
          and vc = None and dv = "IntNum 5" and fv = "IntNum 0" and base = None and bv = None
          and data = samples3 and K = mean_solver and col = "''w''"
          and kres = "(IntNum 3, IntNum 2)" and ext = "(0, 2, 0, 4)" and vm = Linear
          and meth = Ordinary and drifts = "[''regional_linear'']"]
    precondition_failures [where gdf = two_boxes and L = rr_lib and res = 1
          and vc = "Some ''w''" and c = "''w''" and dv = "IntNum 5" and fv = "IntNum 0" and base = None
          and bv = "Some 1"
          and data = samples3 and K = mean_solver and col = "''z''"
          and kres = "(IntNum 3, FloatNum 0)" and ext = "(0, 2, 0, 4)" and vm = Linear
          and meth = Ordinary and drifts = "[''regional_linear'']"]
    precondition_failures [where gdf = two_boxes and L = rr_lib and res = 1
          and vc = "Some ''v''" and dv = "IntNum 5" and fv = "IntNum 0" and base = None
          and bv = "Some (- 1)" and d = "- 1"]
  by (simp add: two_boxes_def samples3_def frame_of_def columns_def)

text \<open>
  C3 as the specification states it fails for the rasterizer: a resolution of 0 is
  answered with \<open>ValueError\<close>, not with the toolkit's invalid-parameter exception.
\<close>

theorem rasterize_vector_raises_ValueError:
  "rasterize_vector rr_lib (frame_of [RRect 0 0 10 10 0] []) 0 None (IntNum 5) (IntNum 0) None None
     = (Inl (ValueError P_resolution), frame_of [RRect 0 0 10 10 0] [])
   \<and> fst (rasterize_vector rr_lib (frame_of [RRect 0 0 10 10 0] []) 0 None (IntNum 5) (IntNum 0) None None)
     \<noteq> Inl (InvalidParameterValueException P_resolution)"
  by (simp add: rasterize_vector_def frame_of_def)

text \<open>
  C4. On a frame with rows (an empty one is the empty-input failure of C3), a drift term
  outside the five recognized ones makes the call fail with
  \<open>InvalidParameterValueException\<close>, whatever the solver \<open>K\<close> would do: the check does not
  look at the mode, so this holds in universal mode. When the target column and the
  resolution are in order, the exception is the one about the drift terms.
\<close>

theorem invalid_drift_term_rejected:
  assumes "geometry data \<noteq> []" and "t \<in> set drifts" and "t \<notin> set recognized_drift_terms"
  shows "(\<exists>p. kriging L K data col res ext vm meth drifts
                 = Inl (InvalidParameterValueException p))
       \<and> (col \<in> set (columns data) \<and> 0 < num_val (fst res) \<and> 0 < num_val (snd res) \<longrightarrow>
            kriging L K data col res ext vm meth drifts
              = Inl (InvalidParameterValueException P_drift_terms))"
  using assms by (auto simp: kriging_def list_ex_iff)

theorem invalid_drift_term_rejected_witness:
  "kriging rr_lib mean_solver samples3 ''z'' (IntNum 3, IntNum 2) (0, 2, 0, 4) Linear Universal
       [''regional_linear'', ''bogus'']
     = Inl (InvalidParameterValueException P_drift_terms)"
  using invalid_drift_term_rejected [where data = samples3 and t = "''bogus''"
      and drifts = "[''regional_linear'', ''bogus'']" and col = "''z''"
      and res = "(IntNum 3, IntNum 2)" and L = rr_lib and K = mean_solver
      and ext = "(0, 2, 0, 4)" and vm = Linear and meth = Universal]
  by (simp add: samples3_def frame_of_def columns_def recognized_drift_terms_def)

section \<open>The interpolator's grid\<close>

text \<open>
  C5. Whenever \<open>kriging\<close> returns, in either mode and with any drift terms, both
  components of the resolution are positive Python ints \<open>n\<close> and \<open>m\<close>, the array has \<open>m\<close>
  rows of \<open>n\<close> cells, \<open>n * m\<close> cells in all, and the metadata give \<open>n\<close> as the width and
  \<open>m\<close> as the height. And it does return on a frame with rows whose geometries are points
  and whose target column is a numeric attribute, for positive ints \<open>n'\<close> and \<open>m'\<close> and
  recognized drift terms, once the solver fits.
\<close>

theorem kriging_grid_shape:
  "(kriging L K data col res ext vm meth drifts = Inr (arr, meta) \<longrightarrow>
      (\<exists>n m. res = (IntNum n, IntNum m) \<and> 0 < n \<and> 0 < m
         \<and> length arr = nat m \<and> (\<forall>row \<in> set arr. length row = nat n)
         \<and> length (concat arr) = nat n * nat m
         \<and> map_of meta ''width'' = Some (MNum (of_int n))
         \<and> map_of meta ''height'' = Some (MNum (of_int m))))
   \<and> (geometry data \<noteq> [] \<and> 0 < n' \<and> 0 < m'
        \<and> (\<forall>t \<in> set drifts. t \<in> set recognized_drift_terms)
        \<and> coordinates L (geometry data) = Some cs \<and> map_of (attributes data) col = Some z
        \<and> (case meth of
              Universal \<Rightarrow> universal_kriging K (map fst cs) (map snd cs)
                   (map num_val (column_values z)) vm drifts
            | Ordinary \<Rightarrow> ordinary_kriging K (map fst cs) (map snd cs)
                   (map num_val (column_values z)) vm) \<noteq> None \<longrightarrow>
      (\<exists>arr' meta'. kriging L K data col (IntNum n', IntNum m') ext vm meth drifts
                       = Inr (arr', meta')))"
proof (intro conjI impI)
  assume ok: "kriging L K data col res ext vm meth drifts = Inr (arr, meta)"
  obtain e0 e1 e2 e3 where ext: "ext = (e0, e1, e2, e3)" by (cases ext) auto
  from kriging_Inr [OF ok] have pos: "0 < num_val (fst res)" "0 < num_val (snd res)"
    and priv: "kriging_priv L K data col res ext vm meth drifts = Inr (arr, meta)"
    by simp_all
  from kriging_priv_Inr [OF priv] obtain gx gy est where
    grid: "kriging_grid res ext = Inr (gx, gy)" and arr: "arr = execute_grid est gx gy"
    and meta: "meta = [(''crs'', MCrs (crs data)), (''width'', MNum (real (length gx))),
                       (''height'', MNum (real (length gy)))]"
    by auto
  from kriging_grid_Inr [OF grid [unfolded ext]] have
    lx: "linspace e0 e1 (fst res) = Inr gx" and ly: "linspace e2 e3 (snd res) = Inr gy"
    by simp_all
  from linspace_Inr [OF lx] obtain n where n: "fst res = IntNum n" "0 \<le> n" "length gx = nat n"
    by auto
  from linspace_Inr [OF ly] obtain m where m: "snd res = IntNum m" "0 \<le> m" "length gy = nat m"
    by auto
  have "res = (IntNum n, IntNum m)" using n(1) m(1) by (cases res) simp
  moreover have "0 < n" "0 < m" using pos n(1) m(1) by simp_all
  moreover have "length arr = nat m" "\<forall>row \<in> set arr. length row = nat n"
    "length (concat arr) = nat n * nat m"
    using execute_grid_shape [of est gx gy] arr n(3) m(3) by simp_all
  moreover have "map_of meta ''width'' = Some (MNum (of_int n))"
    "map_of meta ''height'' = Some (MNum (of_int m))"
    using meta n(2,3) m(2,3) by simp_all
  ultimately show "\<exists>n m. res = (IntNum n, IntNum m) \<and> 0 < n \<and> 0 < m
         \<and> length arr = nat m \<and> (\<forall>row \<in> set arr. length row = nat n)
         \<and> length (concat arr) = nat n * nat m
         \<and> map_of meta ''width'' = Some (MNum (of_int n))
         \<and> map_of meta ''height'' = Some (MNum (of_int m))"
    by blast
next
  assume a: "geometry data \<noteq> [] \<and> 0 < n' \<and> 0 < m'
        \<and> (\<forall>t \<in> set drifts. t \<in> set recognized_drift_terms)
        \<and> coordinates L (geometry data) = Some cs \<and> map_of (attributes data) col = Some z
        \<and> (case meth of
              Universal \<Rightarrow> universal_kriging K (map fst cs) (map snd cs)
                   (map num_val (column_values z)) vm drifts
            | Ordinary \<Rightarrow> ordinary_kriging K (map fst cs) (map snd cs)
                   (map num_val (column_values z)) vm) \<noteq> None"
  obtain e0 e1 e2 e3 where ext: "ext = (e0, e1, e2, e3)" by (cases ext) auto
  from a have col: "col \<in> set (columns data)"
    by (auto simp: columns_def dest: map_of_SomeD intro: rev_image_eqI)
  obtain gx where gx: "linspace e0 e1 (IntNum n') = Inr gx"
    using linspace_total [of n' e0 e1] a by auto
  obtain gy where gy: "linspace e2 e3 (IntNum m') = Inr gy"
    using linspace_total [of m' e2 e3] a by auto
  have grid: "kriging_grid (IntNum n', IntNum m') ext = Inr (gx, gy)"
    using gx gy by (simp add: kriging_grid_def ext)
  from a obtain est where est: "(case meth of
              Universal \<Rightarrow> universal_kriging K (map fst cs) (map snd cs)
                   (map num_val (column_values z)) vm drifts
            | Ordinary \<Rightarrow> ordinary_kriging K (map fst cs) (map snd cs)
                   (map num_val (column_values z)) vm) = Some est"
    by auto
  have "\<exists>arr' meta'. kriging_priv L K data col (IntNum n', IntNum m') ext vm meth drifts
                       = Inr (arr', meta')"
    unfolding kriging_priv_def using a grid est by simp
  moreover have "kriging L K data col (IntNum n', IntNum m') ext vm meth drifts
     = kriging_priv L K data col (IntNum n', IntNum m') ext vm meth drifts"
    using a col by (auto simp: kriging_def list_ex_iff)
  ultimately show "\<exists>arr' meta'. kriging L K data col (IntNum n', IntNum m') ext vm meth drifts
                       = Inr (arr', meta')"
    by simp
qed

theorem kriging_grid_shape_witness:
  "kriging rr_lib mean_solver samples3 ''z'' (IntNum 3, IntNum 2) (0, 2, 0, 4) Linear Ordinary
       [''regional_linear'']
     = Inr ([[2, 2, 2], [2, 2, 2]],
            [(''crs'', MCrs (Some ''EPSG:3067'')), (''width'', MNum 3), (''height'', MNum 2)])
   \<and> length (concat [[2, 2, 2], [2, 2, 2::real]]) = nat 3 * nat 2
   \<and> (\<exists>arr' meta'. kriging rr_lib mean_solver samples3 ''z'' (IntNum 3, IntNum 2) (0, 2, 0, 4)
          Linear Universal [''regional_linear''] = Inr (arr', meta'))"
  using kriging_grid_shape [where L = rr_lib and K = mean_solver and data = samples3
      and col = "''z''" and res = "(IntNum 3, IntNum 2)" and ext = "(0, 2, 0, 4)" and vm = Linear
      and meth = Ordinary and drifts = "[''regional_linear'']"
      and arr = "[[2, 2, 2], [2, 2, 2]]"
      and meta = "[(''crs'', MCrs (Some ''EPSG:3067'')), (''width'', MNum 3), (''height'', MNum 2)]"]
    kriging_grid_shape [where L = rr_lib and K = mean_solver and data = samples3
      and col = "''z''" and ext = "(0, 2, 0, 4)" and vm = Linear
      and meth = Universal and drifts = "[''regional_linear'']" and n' = 3 and m' = 2
      and cs = "[(0, 0), (2, 0), (0, 2)]" and z = "FloatColumn [1, 2, 3]"]
    samples3_run
  by (simp add: samples3_def frame_of_def rr_lib_def mean_solver_def recognized_drift_terms_def)

text \<open>
  C9. In a call of \<open>kriging\<close> that returns, the x coordinates of the grid nodes start at
  the first component of the extent and, when there are two or more, end at the second
  and are evenly spaced between them; the y coordinates do the same with the third and
  the fourth component; the cell in row \<open>j\<close> and column \<open>i\<close> is the estimate at
  \<open>(gx ! i, gy ! j)\<close>. So the extent is read as \<open>(x_min, x_max, y_min, y_max)\<close>. The
  frame deriver reads its bounds \<open>(b0, b1, b2, b3)\<close> as \<open>(min_x, min_y, max_x, max_y)\<close>:
  the width comes from \<open>b2 - b0\<close>, the height from \<open>b3 - b1\<close>, and every geometry's
  bounds lie within them in that order.
\<close>

theorem kriging_extent_axes:
  "(kriging L K data col res (e0, e1, e2, e3) vm meth drifts = Inr (arr, meta) \<longrightarrow>
      (\<exists>n m gx gy cs z est.
           res = (IntNum n, IntNum m) \<and> 0 < n \<and> 0 < m
         \<and> kriging_grid res (e0, e1, e2, e3) = Inr (gx, gy)
         \<and> length gx = nat n \<and> length gy = nat m
         \<and> gx ! 0 = e0 \<and> gy ! 0 = e2
         \<and> (1 < n \<longrightarrow> gx ! (nat n - 1) = e1
               \<and> (\<forall>i < nat n. gx ! i = e0 + real i * (e1 - e0) / real (nat n - 1)))
         \<and> (1 < m \<longrightarrow> gy ! (nat m - 1) = e3
               \<and> (\<forall>j < nat m. gy ! j = e2 + real j * (e3 - e2) / real (nat m - 1)))
         \<and> coordinates L (geometry data) = Some cs \<and> map_of (attributes data) col = Some z
         \<and> (case meth of
               Universal \<Rightarrow> universal_kriging K (map fst cs) (map snd cs)
                   (map num_val (column_values z)) vm drifts
             | Ordinary \<Rightarrow> ordinary_kriging K (map fst cs) (map snd cs)
                   (map num_val (column_values z)) vm) = Some est
         \<and> (\<forall>i < nat n. \<forall>j < nat m. arr ! j ! i = est (gx ! i) (gy ! j))))
   \<and> (total_bounds L gdf = (b0, b1, b2, b3) \<longrightarrow>
        transform_from_geometries_priv L gdf r
          = ((b2 - b0) / r, (b3 - b1) / r,
             from_bounds b0 b1 b2 b3 ((b2 - b0) / r) ((b3 - b1) / r))
      \<and> (\<forall>g \<in> set (geometry gdf).
            b0 \<le> fst (bounds L g) \<and> b1 \<le> fst (snd (bounds L g))
          \<and> fst (snd (snd (bounds L g))) \<le> b2 \<and> snd (snd (snd (bounds L g))) \<le> b3))"
  (is "(?ok \<longrightarrow> ?grid) \<and> (?tb \<longrightarrow> ?frame \<and> ?extent)")
proof (rule conjI; rule impI)
  assume ok: ?ok
  from kriging_Inr [OF ok] have pos: "0 < num_val (fst res)" "0 < num_val (snd res)"
    and priv: "kriging_priv L K data col res (e0, e1, e2, e3) vm meth drifts = Inr (arr, meta)"
    by simp_all
  from kriging_priv_Inr [OF priv] obtain cs z gx gy est where
    cs: "coordinates L (geometry data) = Some cs" and z: "map_of (attributes data) col = Some z"
    and grid: "kriging_grid res (e0, e1, e2, e3) = Inr (gx, gy)"
    and est: "(case meth of
               Universal \<Rightarrow> universal_kriging K (map fst cs) (map snd cs)
                   (map num_val (column_values z)) vm drifts
             | Ordinary \<Rightarrow> ordinary_kriging K (map fst cs) (map snd cs)
                   (map num_val (column_values z)) vm) = Some est"
    and arr: "arr = execute_grid est gx gy"
    by auto
  from kriging_grid_Inr [OF grid] have
    lx: "linspace e0 e1 (fst res) = Inr gx" and ly: "linspace e2 e3 (snd res) = Inr gy"
    by simp_all
  from linspace_Inr [OF lx] obtain n where n: "fst res = IntNum n" "length gx = nat n"
    by auto
  from linspace_Inr [OF ly] obtain m where m: "snd res = IntNum m" "length gy = nat m"
    by auto
  have res: "res = (IntNum n, IntNum m)" using n(1) m(1) by (cases res) simp
  have npos: "0 < n" and mpos: "0 < m" using pos n(1) m(1) by simp_all
  have x0: "gx ! 0 = e0" using linspace_first [OF lx [unfolded n(1)] npos] .
  have y0: "gy ! 0 = e2" using linspace_first [OF ly [unfolded m(1)] mpos] .
  have xl: "1 < n \<longrightarrow> gx ! (nat n - 1) = e1
               \<and> (\<forall>i < nat n. gx ! i = e0 + real i * (e1 - e0) / real (nat n - 1))"
    using linspace_last [OF lx [unfolded n(1)]] linspace_nth [OF lx [unfolded n(1)]] by blast
  have yl: "1 < m \<longrightarrow> gy ! (nat m - 1) = e3
               \<and> (\<forall>j < nat m. gy ! j = e2 + real j * (e3 - e2) / real (nat m - 1))"
    using linspace_last [OF ly [unfolded m(1)]] linspace_nth [OF ly [unfolded m(1)]] by blast
  have cells: "\<forall>i < nat n. \<forall>j < nat m. arr ! j ! i = est (gx ! i) (gy ! j)"
    using arr n(2) m(2) by (simp add: execute_grid_nth)
  show ?grid
    using res npos mpos grid n(2) m(2) x0 y0 xl yl cs z est cells
    by (intro exI [of _ n] exI [of _ m] exI [of _ gx] exI [of _ gy] exI [of _ cs] exI [of _ z]
          exI [of _ est]) simp
next
  assume tb: ?tb
  then have ?frame
    by (simp add: transform_from_geometries_priv_def Let_def)
  moreover have ?extent
  proof
    fix g assume g: "g \<in> set (geometry gdf)"
    obtain x0 y0 x1 y1 where b: "bounds L g = (x0, y0, x1, y1)" by (cases "bounds L g") auto
    from total_bounds_lower [OF g tb b] show
      "b0 \<le> fst (bounds L g) \<and> b1 \<le> fst (snd (bounds L g))
          \<and> fst (snd (snd (bounds L g))) \<le> b2 \<and> snd (snd (snd (bounds L g))) \<le> b3"
      by (simp add: b)
  qed
  ultimately show "?frame \<and> ?extent" ..
qed

theorem kriging_extent_axes_witness:
  "kriging rr_lib mean_solver samples3 ''z'' (IntNum 3, IntNum 2) (0, 2, 0, 4) Linear Ordinary
       [''regional_linear'']
     = Inr ([[2, 2, 2], [2, 2, 2]],
            [(''crs'', MCrs (Some ''EPSG:3067'')), (''width'', MNum 3), (''height'', MNum 2)])
   \<and> kriging_grid (IntNum 3, IntNum 2) (0, 2, 0, 4) = Inr ([0, 1, 2], [0, 4])
   \<and> total_bounds rr_lib two_boxes = (0, 0, 4, 2)
   \<and> transform_from_geometries_priv rr_lib two_boxes 1 = (4, 2, (1, 0, 0, 0, - 1, 2))"
  using kriging_extent_axes [where L = rr_lib and K = mean_solver and data = samples3
      and col = "''z''" and res = "(IntNum 3, IntNum 2)" and ?e0.0 = 0 and ?e1.0 = 2
      and ?e2.0 = 0 and ?e3.0 = 4 and vm = Linear
      and meth = Ordinary and drifts = "[''regional_linear'']"
      and arr = "[[2, 2, 2], [2, 2, 2]]"
      and meta = "[(''crs'', MCrs (Some ''EPSG:3067'')), (''width'', MNum 3), (''height'', MNum 2)]"
      and gdf = two_boxes and ?b0.0 = 0 and ?b1.0 = 0 and ?b2.0 = 4 and ?b3.0 = 2 and r = 1]
    samples3_run samples3_grid two_boxes_frame
  by simp

section \<open>The grid frame\<close>

text \<open>
  C6. Without a base profile, on a frame with rows and a positive resolution \<open>r\<close>, the
  frame is derived from the total bounds \<open>(min_x, min_y, max_x, max_y)\<close>: the width is
  \<open>(max_x - min_x) / r\<close>, the height \<open>(max_y - min_y) / r\<close>; the bounds enclose every
  geometry's bounds and each is attained by one; the transform sends pixel \<open>(0, 0)\<close> to
  the corner \<open>(min_x, max_y)\<close> and, when the extent has an area, pixel \<open>(width, height)\<close>
  to the corner \<open>(max_x, min_y)\<close>. With a base profile, width, height and transform are
  the profile's own, and they are what the rasterizer returns as metadata.
\<close>

theorem grid_frame_modes:
  "(geometry gdf \<noteq> [] \<and> 0 < r \<and> total_bounds L gdf = (min_x, min_y, max_x, max_y) \<longrightarrow>
      grid_frame L gdf None r
        = ((max_x - min_x) / r, (max_y - min_y) / r,
           from_bounds min_x min_y max_x max_y ((max_x - min_x) / r) ((max_y - min_y) / r))
    \<and> (\<forall>g \<in> set (geometry gdf).
          min_x \<le> fst (bounds L g) \<and> min_y \<le> fst (snd (bounds L g))
        \<and> fst (snd (snd (bounds L g))) \<le> max_x \<and> snd (snd (snd (bounds L g))) \<le> max_y)
    \<and> min_x \<in> (fst \<circ> bounds L) ` set (geometry gdf)
    \<and> min_y \<in> (fst \<circ> snd \<circ> bounds L) ` set (geometry gdf)
    \<and> max_x \<in> (fst \<circ> snd \<circ> snd \<circ> bounds L) ` set (geometry gdf)
    \<and> max_y \<in> (snd \<circ> snd \<circ> snd \<circ> bounds L) ` set (geometry gdf)
    \<and> apply_affine (snd (snd (grid_frame L gdf None r))) (0, 0) = (min_x, max_y)
    \<and> (min_x < max_x \<and> min_y < max_y \<longrightarrow>
          apply_affine (snd (snd (grid_frame L gdf None r)))
            (fst (grid_frame L gdf None r), fst (snd (grid_frame L gdf None r)))
          = (max_x, min_y)))
   \<and> grid_frame L gdf (Some p) r = (p_width p, p_height p, p_transform p)
   \<and> (rasterize_vector_priv L gdf vc dv fv (Some p) r = Inr (arr, meta) \<longrightarrow>
        meta = [(''transform'', MTransform (p_transform p)), (''height'', MNum (p_height p)),
                (''width'', MNum (p_width p))])"
  (is "(?pre \<longrightarrow> ?a) \<and> ?b \<and> (?ok \<longrightarrow> ?c)")
proof -
  have A: "?pre \<longrightarrow> ?a"
  proof
  assume pre: ?pre
  then have ne: "geometry gdf \<noteq> []" and r: "0 < r"
    and tb: "total_bounds L gdf = (min_x, min_y, max_x, max_y)" by simp_all
  have gf: "grid_frame L gdf None r
        = ((max_x - min_x) / r, (max_y - min_y) / r,
           from_bounds min_x min_y max_x max_y ((max_x - min_x) / r) ((max_y - min_y) / r))"
    using tb by (simp add: grid_frame_def transform_from_geometries_priv_def Let_def)
  have ext: "\<forall>g \<in> set (geometry gdf).
          min_x \<le> fst (bounds L g) \<and> min_y \<le> fst (snd (bounds L g))
        \<and> fst (snd (snd (bounds L g))) \<le> max_x \<and> snd (snd (snd (bounds L g))) \<le> max_y"
  proof
    fix g assume g: "g \<in> set (geometry gdf)"
    obtain x0 y0 x1 y1 where b: "bounds L g = (x0, y0, x1, y1)" by (cases "bounds L g") auto
    from total_bounds_lower [OF g tb b] show
      "min_x \<le> fst (bounds L g) \<and> min_y \<le> fst (snd (bounds L g))
        \<and> fst (snd (snd (bounds L g))) \<le> max_x \<and> snd (snd (snd (bounds L g))) \<le> max_y"
      by (simp add: b)
  qed
  have org: "apply_affine (snd (snd (grid_frame L gdf None r))) (0, 0) = (min_x, max_y)"
    by (simp add: gf from_bounds_origin)
  have cor: "min_x < max_x \<and> min_y < max_y \<longrightarrow>
          apply_affine (snd (snd (grid_frame L gdf None r)))
            (fst (grid_frame L gdf None r), fst (snd (grid_frame L gdf None r)))
          = (max_x, min_y)"
  proof
    assume "min_x < max_x \<and> min_y < max_y"
    then have "(max_x - min_x) / r \<noteq> 0" "(max_y - min_y) / r \<noteq> 0" using r by simp_all
    from from_bounds_corner [OF this] show
      "apply_affine (snd (snd (grid_frame L gdf None r)))
            (fst (grid_frame L gdf None r), fst (snd (grid_frame L gdf None r)))
          = (max_x, min_y)"
      by (simp add: gf)
  qed
  show ?a using gf ext total_bounds_attained [OF ne tb] org cor by blast
  qed
  have B: ?b by (simp add: grid_frame_def)
  have C: "?ok \<longrightarrow> ?c"
  proof
    assume ?ok
    from rasterize_vector_priv_Inr [OF this] show ?c
      by (auto simp: grid_frame_def)
  qed
  from A B C show ?thesis by (intro conjI)
qed

theorem grid_frame_modes_witness:
  "grid_frame rr_lib two_boxes None (1 / 2) = (8, 4, (1 / 2, 0, 0, 0, - (1 / 2), 2))
   \<and> apply_affine (1 / 2, 0, 0, 0, - (1 / 2), 2) (8, 4) = (4, 0)
   \<and> grid_frame rr_lib two_boxes (Some base_profile) (1 / 2) = (3, 2, (1, 0, 0, 0, - 1, 2))
   \<and> rasterize_vector_priv rr_lib two_boxes (Some ''v'') (IntNum 5) (IntNum 0) (Some base_profile) (1 / 2)
     = Inr ([[7, 7, 7], [7, 9, 9]],
            [(''transform'', MTransform (1, 0, 0, 0, - 1, 2)),
             (''height'', MNum 2), (''width'', MNum 3)])"
  using grid_frame_modes [where L = rr_lib and gdf = two_boxes and r = "1 / 2"
      and min_x = 0 and min_y = 0 and max_x = 4 and max_y = 2 and p = base_profile
      and vc = "Some ''v''" and dv = "IntNum 5" and fv = "IntNum 0" and arr = "[[7, 7, 7], [7, 9, 9]]"
      and meta = "[(''transform'', MTransform (1, 0, 0, 0, - 1, 2)),
             (''height'', MNum 2), (''width'', MNum 3)]"]
    two_boxes_bounds two_boxes_base_run
  by (simp add: two_boxes_geometry from_bounds_def base_profile_def apply_affine_def)

section \<open>Burned cells\<close>

text \<open>
  C7. The result is a function of the inputs. In a successful call on a well-formed
  frame, let \<open>gs\<close> be the geometries as they are burned (the frame's geometry column after
  the call, buffered if a buffer value was given) and \<open>T\<close> the transform of the returned
  metadata. A cell of the array that the geometry at index \<open>i\<close> burns, and no geometry
  listed after it, holds that geometry's value: its entry in the value column, or
  \<open>default_value\<close> when there is no value column.
\<close>

theorem last_listed_geometry_wins:
  assumes ok: "fst (rasterize_vector L gdf res vc dv fv base bv) = Inr (arr, meta)"
    and wf: "wf_frame gdf"
    and gs: "gs = geometry (snd (rasterize_vector L gdf res vc dv fv base bv))"
    and T: "map_of meta ''transform'' = Some (MTransform T)"
    and r: "r < length arr" and c: "c < length (arr ! r)"
    and i: "i < length gs" and bi: "burns L T (gs ! i) r c"
    and last: "\<forall>j. i < j \<and> j < length gs \<longrightarrow> \<not> burns L T (gs ! j) r c"
  shows "arr ! r ! c
           = num_val (case vc of None \<Rightarrow> dv
                      | Some col \<Rightarrow> column_values (the (map_of (attributes gdf) col)) ! i)"
proof -
  from rasterize_vector_cells [OF ok wf gs] obtain pairs w h T' filled where
    meta: "meta = [(''transform'', MTransform T'), (''height'', MNum h), (''width'', MNum w)]"
    and rows: "length arr = nat (pyround h)"
    and cols: "\<forall>r < nat (pyround h). length (arr ! r) = nat (pyround w)"
    and len: "length pairs = length gs"
    and nth: "\<forall>i < length gs. fst (pairs ! i) = gs ! i
              \<and> shape_value dv (pairs ! i)
                  = (case vc of None \<Rightarrow> dv
                     | Some col \<Rightarrow> column_values (the (map_of (attributes gdf) col)) ! i)"
    and cells: "\<forall>r < nat (pyround h). \<forall>c < nat (pyround w).
               arr ! r ! c
                 = foldl (\<lambda>v s. if burns L T' (fst s) r c then num_val (shape_value dv s) else v)
                     filled pairs"
    by blast
  have TT: "T' = T" using meta T by simp
  have rc: "r < nat (pyround h)" "c < nat (pyround w)" using r c rows cols by simp_all
  have "arr ! r ! c
          = foldl (\<lambda>v s. if burns L T (fst s) r c then num_val (shape_value dv s) else v)
              filled pairs"
    using cells rc TT by simp
  also have "\<dots> = num_val (shape_value dv (pairs ! i))"
  proof (rule foldl_cell_last)
    show "i < length pairs" using i len by simp
    show "burns L T (fst (pairs ! i)) r c" using bi nth i by simp
    show "\<forall>j. i < j \<and> j < length pairs \<longrightarrow> \<not> burns L T (fst (pairs ! j)) r c"
      using last nth len by simp
  qed
  finally show ?thesis using nth i by simp
qed

theorem last_listed_geometry_wins_witness:
  "fst (rasterize_vector rr_lib two_boxes 1 (Some ''v'') (IntNum 5) (IntNum 0) None None)
     = Inr ([[7, 7, 7, 7], [7, 9, 9, 7]],
            [(''transform'', MTransform (1, 0, 0, 0, - 1, 2)),
             (''height'', MNum 2), (''width'', MNum 4)])
   \<and> burns rr_lib (1, 0, 0, 0, - 1, 2) (geometry two_boxes ! 0) 1 1
   \<and> burns rr_lib (1, 0, 0, 0, - 1, 2) (geometry two_boxes ! 1) 1 1
   \<and> [[7, 7, 7, 7], [7, 9, 9, 7 :: real]] ! 1 ! 1
       = num_val (column_values (the (map_of (attributes two_boxes) ''v'')) ! 1)"
  using last_listed_geometry_wins [where L = rr_lib and gdf = two_boxes and res = 1
      and vc = "Some ''v''" and dv = "IntNum 5" and fv = "IntNum 0" and base = None and bv = None
      and arr = "[[7, 7, 7, 7], [7, 9, 9, 7]]"
      and meta = "[(''transform'', MTransform (1, 0, 0, 0, - 1, 2)),
             (''height'', MNum 2), (''width'', MNum 4)]"
      and gs = "geometry two_boxes" and T = "(1, 0, 0, 0, - 1, 2)" and r = 1 and c = 1 and i = 1]
    two_boxes_run two_boxes_wf two_boxes_after two_boxes_burns
  by (simp add: two_boxes_geometry rr_lib_def)




section \<open>Array shape and metadata of the rasterizer\<close>

text \<open>
  C10. In a successful call without a base profile, let \<open>(w, h, T)\<close> be what
  \<open>_transform_from_geometries\<close> derives from the geometries as burned. The array has
  \<open>round(h)\<close> rows of \<open>round(w)\<close> cells, where \<open>round\<close> is Python's: the nearest integer,
  the even one on a tie. The metadata carry \<open>h\<close> and \<open>w\<close> themselves, so a height or width
  that is not an integer differs from the number of rows or of cells in a row.
\<close>

theorem raster_shape_rounded_metadata_unrounded:
  assumes ok: "fst (rasterize_vector L gdf res vc dv fv None bv) = Inr (arr, meta)"
    and tf: "transform_from_geometries_priv L
               (snd (rasterize_vector L gdf res vc dv fv None bv)) res = (w, h, T)"
  shows "0 < pyround h \<and> 0 < pyround w
       \<and> length arr = nat (pyround h) \<and> (\<forall>row \<in> set arr. length row = nat (pyround w))
       \<and> \<bar>h - of_int (pyround h)\<bar> \<le> 1 / 2 \<and> (\<bar>h - of_int (pyround h)\<bar> = 1 / 2 \<longrightarrow> even (pyround h))
       \<and> \<bar>w - of_int (pyround w)\<bar> \<le> 1 / 2 \<and> (\<bar>w - of_int (pyround w)\<bar> = 1 / 2 \<longrightarrow> even (pyround w))
       \<and> meta = [(''transform'', MTransform T), (''height'', MNum h), (''width'', MNum w)]
       \<and> (h \<notin> \<int> \<longrightarrow> h \<noteq> real (length arr))
       \<and> (w \<notin> \<int> \<longrightarrow> (\<forall>row \<in> set arr. w \<noteq> real (length row)))"
proof -
  let ?gdf' = "snd (rasterize_vector L gdf res vc dv fv None bv)"
  from rasterize_vector_Inr [OF ok] have
    priv: "rasterize_vector_priv L ?gdf' vc dv fv None res = Inr (arr, meta)" by simp
  from rasterize_vector_priv_Inr [OF priv] obtain pairs w' h' T' where
    gf: "grid_frame L ?gdf' None res = (w', h', T')"
    and fr: "features_rasterize L pairs fv dv T' (pyround h', pyround w') = Inr arr"
    and meta: "meta = [(''transform'', MTransform T'), (''height'', MNum h'), (''width'', MNum w')]"
    by auto
  have eq: "w' = w" "h' = h" "T' = T" using gf tf by (simp_all add: grid_frame_def)
  from features_rasterize_shape [OF fr] have
    pos: "0 < pyround h" "0 < pyround w" and rows: "length arr = nat (pyround h)"
    and cols: "\<forall>r < nat (pyround h). length (arr ! r) = nat (pyround w)"
    unfolding eq by simp_all
  have rowlen: "\<forall>row \<in> set arr. length row = nat (pyround w)"
    using rows cols by (auto simp: in_set_conv_nth)
  have hn: "h \<notin> \<int> \<longrightarrow> h \<noteq> real (length arr)"
    using Ints_of_nat [of "length arr"] by auto
  have wn: "w \<notin> \<int> \<longrightarrow> (\<forall>row \<in> set arr. w \<noteq> real (length row))"
  proof (intro impI ballI)
    fix row assume "w \<notin> \<int>"
    then show "w \<noteq> real (length row)" using Ints_of_nat [of "length row"] by auto
  qed
  have tie: "\<bar>h - of_int (pyround h)\<bar> = 1 / 2 \<longrightarrow> even (pyround h)"
    "\<bar>w - of_int (pyround w)\<bar> = 1 / 2 \<longrightarrow> even (pyround w)"
    using pyround_tie by blast+
  from pos rows rowlen pyround_near [of h] tie(1) pyround_near [of w] tie(2)
    meta [unfolded eq] hn wn
  show ?thesis by (intro conjI)
qed

theorem raster_shape_rounded_metadata_unrounded_witness:
  "fst (rasterize_vector rr_lib two_boxes (4 / 5) (Some ''v'') (IntNum 5) (IntNum 0) None None)
     = Inr ([[7, 7, 7, 7, 7], [7, 9, 9, 9, 7]],
            [(''transform'', MTransform (4 / 5, 0, 0, 0, - (4 / 5), 2)),
             (''height'', MNum (5 / 2)), (''width'', MNum 5)])
   \<and> (5 / 2 :: real) \<notin> \<int>
   \<and> pyround (5 / 2) = 2
   \<and> length [[7, 7, 7, 7, 7], [7, 9, 9, 9, 7 :: real]] = nat (pyround (5 / 2))
   \<and> (5 / 2 :: real) \<noteq> real (length [[7, 7, 7, 7, 7], [7, 9, 9, 9, 7 :: real]])"
  using raster_shape_rounded_metadata_unrounded [where L = rr_lib and gdf = two_boxes
      and res = "4 / 5" and vc = "Some ''v''" and dv = "IntNum 5" and fv = "IntNum 0" and bv = None
      and arr = "[[7, 7, 7, 7, 7], [7, 9, 9, 9, 7]]"
      and meta = "[(''transform'', MTransform (4 / 5, 0, 0, 0, - (4 / 5), 2)),
             (''height'', MNum (5 / 2)), (''width'', MNum 5)]"
      and w = 5 and h = "5 / 2" and T = "(4 / 5, 0, 0, 0, - (4 / 5), 2)"]
    two_boxes_tie_run two_boxes_tie_frame two_boxes_tie_after half_not_int pyround_half
  by simp

end
